theory Spec2Isabelle
  imports Complex_Main
begin

section \<open>The scoring engine of the diversity and inclusion evaluator (v6.py)\<close>

text \<open>
  The development embeds the scoring functions of \<^verbatim>\<open>src/v6.py\<close>: the grade ladder
  \<^verbatim>\<open>attribuer_note\<close>, the two conversions \<^verbatim>\<open>note_vers_chiffre\<close> and
  \<^verbatim>\<open>chiffre_vers_note\<close>, the age balance \<^verbatim>\<open>calculer_equilibre_age\<close>, the table
  \<^verbatim>\<open>seuils\<close> and the module-level code that grades the six indicators and averages
  the grades.

  Numbers. The program computes with Python floats and ints. They are modelled as
  \<^typ>\<open>real\<close>: comparisons between finite floats and ints are exact in Python, so the
  comparison chains are modelled without loss; the arithmetic of
  \<^verbatim>\<open>calculer_equilibre_age\<close> and of the mean is the exact arithmetic, rounding is not
  modelled, and neither are NaN and the infinities. Grades are Python strings and are
  modelled as \<^typ>\<open>string\<close>; a dictionary is the list of its items in insertion order.
\<close>

subsection \<open>Exceptions\<close>

text \<open>
  The exceptions the modelled code can raise. \<^verbatim>\<open>ValueError\<close> carries its message and
  \<^verbatim>\<open>KeyError\<close> the missing key. A computation that may raise returns
  \<open>py_error + 'a\<close>, with \<open>Inl\<close> for the exception.
\<close>

datatype py_error =
    IndexError
  | KeyError string
  | TypeError
  | ValueError string
  | ZeroDivisionError

text \<open>The name of the exception's class, as \<^verbatim>\<open>type(e).__name__\<close> gives it.\<close>

fun class_name :: "py_error \<Rightarrow> string" where
  "class_name IndexError = ''IndexError''"
| "class_name (KeyError k) = ''KeyError''"
| "class_name TypeError = ''TypeError''"
| "class_name (ValueError m) = ''ValueError''"
| "class_name ZeroDivisionError = ''ZeroDivisionError''"

text \<open>Sequencing: the first exception raised ends the computation.\<close>

definition and_then :: "py_error + 'a \<Rightarrow> ('a \<Rightarrow> py_error + 'b) \<Rightarrow> py_error + 'b" where
  "and_then m f = (case m of Inl e \<Rightarrow> Inl e | Inr x \<Rightarrow> f x)"

text \<open>\<^verbatim>\<open>xs[i]\<close> for a literal index \<open>i \<ge> 0\<close>: IndexError out of range.\<close>

definition item :: "'a list \<Rightarrow> nat \<Rightarrow> py_error + 'a" where
  "item xs i = (if i < length xs then Inr (xs ! i) else Inl IndexError)"

text \<open>\<^verbatim>\<open>d[k]\<close> on a dictionary: KeyError when the key is absent.\<close>

definition getitem :: "(string \<times> 'v) list \<Rightarrow> string \<Rightarrow> py_error + 'v" where
  "getitem d k = (case map_of d k of None \<Rightarrow> Inl (KeyError k) | Some v \<Rightarrow> Inr v)"

subsection \<open>attribuer\_note (v6.py, lines 39--73)\<close>

text \<open>
  The chain of comparisons, in the source's order. Each \<^verbatim>\<open>seuils[i]\<close> is read only
  when the comparisons before it have failed, as in the source.
\<close>

definition attribuer_note :: "real \<Rightarrow> real list \<Rightarrow> bool \<Rightarrow> py_error + string" where
  "attribuer_note valeur seuils ordre_croissant =
    (if ordre_croissant then
       and_then (item seuils 0) (\<lambda>s0.
         if valeur \<ge> s0 then Inr ''A''
         else and_then (item seuils 1) (\<lambda>s1.
           if valeur \<ge> s1 then Inr ''B''
           else and_then (item seuils 2) (\<lambda>s2.
             if valeur \<ge> s2 then Inr ''C''
             else and_then (item seuils 3) (\<lambda>s3.
               if valeur \<ge> s3 then Inr ''D''
               else Inr ''E''))))
     else
       and_then (item seuils 0) (\<lambda>s0.
         if valeur \<le> s0 then Inr ''A''
         else and_then (item seuils 1) (\<lambda>s1.
           if valeur \<le> s1 then Inr ''B''
           else and_then (item seuils 2) (\<lambda>s2.
             if valeur \<le> s2 then Inr ''C''
             else and_then (item seuils 3) (\<lambda>s3.
               if valeur \<le> s3 then Inr ''D''
               else Inr ''E'')))))"

subsection \<open>note\_vers\_chiffre (lines 76--87) and chiffre\_vers\_note (lines 90--109)\<close>

text \<open>The dictionary \<^verbatim>\<open>conversion\<close> local to \<^verbatim>\<open>note_vers_chiffre\<close>.\<close>

definition conversion :: "(string \<times> int) list" where
  "conversion = [(''A'', 5), (''B'', 4), (''C'', 3), (''D'', 2), (''E'', 1)]"

text \<open>\<^verbatim>\<open>conversion.get(note, 0)\<close>: the default 0 for a key that is absent.\<close>

definition note_vers_chiffre :: "string \<Rightarrow> int" where
  "note_vers_chiffre note = (case map_of conversion note of None \<Rightarrow> 0 | Some n \<Rightarrow> n)"

definition chiffre_vers_note :: "real \<Rightarrow> string" where
  "chiffre_vers_note score =
    (if score \<ge> 4.5 then ''A''
     else if score \<ge> 3.5 then ''B''
     else if score \<ge> 2.5 then ''C''
     else if score \<ge> 1.5 then ''D''
     else ''E'')"

subsection \<open>calculer\_equilibre\_age (lines 112--136)\<close>

definition calculer_equilibre_age :: "real \<Rightarrow> real \<Rightarrow> real \<Rightarrow> real" where
  "calculer_equilibre_age moins_30 entre_30_50 plus_50 =
    (let distribution_ideale = 33.33;
         ecart_moins_30 = \<bar>moins_30 - distribution_ideale\<bar>;
         ecart_entre_30_50 = \<bar>entre_30_50 - distribution_ideale\<bar>;
         ecart_plus_50 = \<bar>plus_50 - distribution_ideale\<bar>;
         ecart_moyen = (ecart_moins_30 + ecart_entre_30_50 + ecart_plus_50) / 3;
         score = 1 - (ecart_moyen / 66.67)
     in score * 100)"

subsection \<open>The table seuils (lines 139--146)\<close>

definition seuils :: "(string \<times> real list) list" where
  "seuils =
    [(''taux_feminisation'', [40, 35, 30, 25]),
     (''taux_femmes_cadres'', [35, 30, 25, 20]),
     (''taux_handicap'', [6, 5, 4, 3]),
     (''ecart_salaire'', [2, 4, 8, 12]),
     (''equilibre_age'', [85, 75, 65, 55]),
     (''taux_absenteisme'', [2.5, 3.5, 4.5, 5.5])]"

subsection \<open>Indicator values\<close>

text \<open>
  The dictionary \<^verbatim>\<open>indicateurs\<close> maps a key to a Python value. \<open>PyNum\<close> is a number
  (an int or a float, the values \<^verbatim>\<open>isinstance(x, (int, float))\<close> accepts); \<open>PyStr\<close>
  stands for a value that is not a number. The program fills the dictionary with
  floats only (lines 254--283 and 340--356).
\<close>

datatype py_val = PyNum real | PyStr string

text \<open>\<^verbatim>\<open>d[k] = v\<close>: the value of an existing key is replaced, a new key is appended.\<close>

fun setitem :: "(string \<times> 'v) list \<Rightarrow> string \<Rightarrow> 'v \<Rightarrow> (string \<times> 'v) list" where
  "setitem [] k v = [(k, v)]"
| "setitem ((k', v') # d) k v =
     (if k' = k then (k, v) # d else (k', v') # setitem d k v)"

text \<open>
  A comparison \<^verbatim>\<open>valeur >= seuils[0]\<close> between a non-number and a number raises
  TypeError. It is the first thing \<^verbatim>\<open>attribuer_note\<close> does after reading
  \<^verbatim>\<open>seuils[0]\<close>, which every list of the table has.
\<close>

fun nombre :: "py_val \<Rightarrow> py_error + real" where
  "nombre (PyNum x) = Inr x"
| "nombre (PyStr s) = Inl TypeError"

subsection \<open>Grading the six indicators (lines 376--383 and 1275--1282)\<close>

text \<open>
  The keys of the dictionary \<^verbatim>\<open>resultats\<close>. A Python string is a sequence of code
  points; the accented letters of the labels are below 256 and each is one
  \<^typ>\<open>char\<close>.
\<close>

definition cles_resultats :: "string list" where
  "cles_resultats =
    [''Taux de f'' @ [CHR 0xE9] @ ''minisation global'',
     ''Taux de femmes cadres'',
     ''Taux d'emploi handicap'',
     [CHR 0xC9] @ ''cart de salaire H/F'',
     [CHR 0xC9] @ ''quilibre des '' @ [CHR 0xE2] @ ''ges'',
     ''Taux d'absent'' @ [CHR 0xE9] @ ''isme'']"

text \<open>
  One entry of the dictionary literal:
  \<^verbatim>\<open>attribuer_note(indicateurs[cle], seuils[cle], ordre)\<close>, the arguments evaluated
  from left to right.
\<close>

definition noter :: "(string \<times> py_val) list \<Rightarrow> string \<Rightarrow> bool \<Rightarrow> py_error + string" where
  "noter indicateurs cle ordre_croissant =
    and_then (getitem indicateurs cle) (\<lambda>valeur.
      and_then (getitem seuils cle) (\<lambda>s.
        and_then (nombre valeur) (\<lambda>x. attribuer_note x s ordre_croissant)))"

definition calcul_des_notes :: "(string \<times> py_val) list \<Rightarrow> py_error + (string \<times> string) list" where
  "calcul_des_notes indicateurs =
    and_then (noter indicateurs ''taux_feminisation'' True) (\<lambda>n1.
      and_then (noter indicateurs ''taux_femmes_cadres'' True) (\<lambda>n2.
        and_then (noter indicateurs ''taux_handicap'' True) (\<lambda>n3.
          and_then (noter indicateurs ''ecart_salaire'' False) (\<lambda>n4.
            and_then (noter indicateurs ''equilibre_age'' True) (\<lambda>n5.
              and_then (noter indicateurs ''taux_absenteisme'' False) (\<lambda>n6.
                Inr (zip cles_resultats [n1, n2, n3, n4, n5, n6])))))))"

subsection \<open>The aggregate (lines 386--390 and 1295--1297)\<close>

text \<open>
  \<^verbatim>\<open>{cle: note_vers_chiffre(note) for cle, note in resultats.items()}\<close>: the same
  keys, in the same order.
\<close>

definition notes_numeriques :: "(string \<times> string) list \<Rightarrow> (string \<times> int) list" where
  "notes_numeriques resultats = map (\<lambda>(cle, note). (cle, note_vers_chiffre note)) resultats"

text \<open>
  \<^verbatim>\<open>sum(notes_numeriques.values()) / len(notes_numeriques)\<close>: the true division of
  two ints, which raises ZeroDivisionError when the divisor is 0.
\<close>

definition score_global :: "(string \<times> int) list \<Rightarrow> py_error + real" where
  "score_global nn =
    (if length nn = 0 then Inl ZeroDivisionError
     else Inr (real_of_int (sum_list (map snd nn)) / real (length nn)))"

text \<open>
  The code under the button (lines 372--390):
  \<^verbatim>\<open>if st.button(...) and indicateurs:\<close> and then the grades, the score and the
  global grade. \<open>bouton\<close> is what \<^verbatim>\<open>st.button\<close> returns. When the button is not
  pressed or the dictionary is empty the block does not run: the result is \<open>None\<close>.
  No handler surrounds the block: an exception leaves it as it is.
\<close>

definition evaluation ::
  "bool \<Rightarrow> (string \<times> py_val) list \<Rightarrow>
   (py_error + ((string \<times> string) list \<times> real \<times> string)) option" where
  "evaluation bouton indicateurs =
    (if bouton \<and> indicateurs \<noteq> [] then
       Some (and_then (calcul_des_notes indicateurs) (\<lambda>resultats.
         and_then (score_global (notes_numeriques resultats)) (\<lambda>score.
           Inr (resultats, score, chiffre_vers_note score))))
     else None)"

subsection \<open>The report section (lines 1261--1297)\<close>

definition indicateurs_requis :: "string list" where
  "indicateurs_requis =
    [''taux_feminisation'', ''taux_femmes_cadres'', ''taux_handicap'',
     ''ecart_salaire'', ''equilibre_age'', ''taux_absenteisme'']"

text \<open>The loop \<^verbatim>\<open>for ind in indicateurs_requis\<close> with its two checks.\<close>

fun verification :: "(string \<times> py_val) list \<Rightarrow> string list \<Rightarrow> py_error + unit" where
  "verification indicateurs [] = Inr ()"
| "verification indicateurs (ind # reste) =
     (case map_of indicateurs ind of
        None \<Rightarrow> Inl (ValueError (''L'indicateur '' @ ind @ '' est manquant''))
      | Some (PyStr s) \<Rightarrow>
          Inl (ValueError (''L'indicateur '' @ ind @ '' doit '' @ [CHR 0xEA] @ ''tre un nombre''))
      | Some (PyNum x) \<Rightarrow> verification indicateurs reste)"

text \<open>
  The report section (lines 1260--1330):
  \<^verbatim>\<open>if 'indicateurs' in locals() and indicateurs:\<close>, where the name is always bound
  (line 243), and then the body of the \<^verbatim>\<open>try\<close>: the check, the grades, the score
  and the global grade. On the empty dictionary the body does not run and the
  \<^verbatim>\<open>else\<close> branch only shows a warning: the result is \<open>None\<close>. The handlers show
  an exception of the body as an error message; the model returns it.
\<close>

definition generation_du_rapport ::
  "(string \<times> py_val) list \<Rightarrow>
   (py_error + ((string \<times> string) list \<times> real \<times> string)) option" where
  "generation_du_rapport indicateurs =
    (if indicateurs \<noteq> [] then
       Some (and_then (verification indicateurs indicateurs_requis) (\<lambda>_.
         and_then (calcul_des_notes indicateurs) (\<lambda>resultats.
           and_then (score_global (notes_numeriques resultats)) (\<lambda>score.
             Inr (resultats, score, chiffre_vers_note score)))))
     else None)"

subsection \<open>The default values of the form (lines 254--283)\<close>

text \<open>
  The dictionary \<^verbatim>\<open>indicateurs\<close> that the manual form builds when no field is
  changed, in the order of the assignments.
\<close>

definition indicateurs_par_defaut :: "(string \<times> py_val) list" where
  "indicateurs_par_defaut =
    [(''taux_feminisation'', PyNum 30.0),
     (''taux_femmes_cadres'', PyNum 28.0),
     (''ecart_salaire'', PyNum 5.0),
     (''taux_handicap'', PyNum 5.5),
     (''equilibre_age'', PyNum (calculer_equilibre_age 15.0 45.0 40.0)),
     (''taux_absenteisme'', PyNum 4.2)]"

subsection \<open>The uploaded file (lines 286--368)\<close>

text \<open>
  The rows of the model file that the program offers for download (lines 289--297),
  the column \<^verbatim>\<open>Indicateur\<close> paired with the column \<^verbatim>\<open>Valeur\<close>.
\<close>

definition template_data :: "(string \<times> py_val) list" where
  "template_data =
    [(''nom_entreprise'', PyStr ''EDF SA''),
     (''annee'', PyNum 2022),
     (''taux_feminisation'', PyNum 30.0),
     (''taux_femmes_cadres'', PyNum 28.0),
     (''ecart_salaire'', PyNum 5.0),
     (''taux_handicap'', PyNum 5.5),
     (''moins_30_ans'', PyNum 15.0),
     (''entre_30_50_ans'', PyNum 45.0),
     (''plus_50_ans'', PyNum 40.0),
     (''taux_absenteisme'', PyNum 4.2)]"

text \<open>
  \<^verbatim>\<open>dict(zip(data['Indicateur'], data['Valeur']))\<close>: the rows are stored one after
  the other, a later row replacing the value of an earlier row of the same name.
\<close>

definition data_dict :: "(string \<times> py_val) list \<Rightarrow> (string \<times> py_val) list" where
  "data_dict rows = foldl (\<lambda>d (k, v). setitem d k v) [] rows"

text \<open>\<^verbatim>\<open>d.get(k, defaut)\<close>.\<close>

definition dict_get :: "(string \<times> 'v) list \<Rightarrow> string \<Rightarrow> 'v \<Rightarrow> 'v" where
  "dict_get d k defaut = (case map_of d k of None \<Rightarrow> defaut | Some v \<Rightarrow> v)"

text \<open>
  Python's built-in \<^verbatim>\<open>float\<close> and \<^verbatim>\<open>int\<close> applied to a string read the number
  that the string writes, or raise ValueError. They are not code of the program and
  are parameters of the model: \<open>float_str s\<close> and \<open>int_str s\<close> are the number
  read, or \<open>None\<close> where the built-in raises.
\<close>

record builtins =
  float_str :: "string \<Rightarrow> real option"
  int_str :: "string \<Rightarrow> int option"

text \<open>\<^verbatim>\<open>float(v)\<close>; \<open>None\<close> where it raises.\<close>

fun py_float :: "builtins \<Rightarrow> py_val \<Rightarrow> real option" where
  "py_float lec (PyNum x) = Some x"
| "py_float lec (PyStr s) = float_str lec s"

text \<open>\<^verbatim>\<open>int(v)\<close>, which truncates a float towards zero; \<open>None\<close> where it raises.\<close>

fun py_int :: "builtins \<Rightarrow> py_val \<Rightarrow> int option" where
  "py_int lec (PyNum x) = Some (if 0 \<le> x then \<lfloor>x\<rfloor> else \<lceil>x\<rceil>)"
| "py_int lec (PyStr s) = int_str lec s"

text \<open>
  \<^verbatim>\<open>indicateurs[cle] = float(data_dict.get(cle, 0))\<close>: the dictionary with the new
  entry, or \<open>None\<close> where \<^verbatim>\<open>float\<close> raises and nothing is stored.
\<close>

definition affecter ::
  "builtins \<Rightarrow> (string \<times> py_val) list \<Rightarrow> string \<Rightarrow> (string \<times> py_val) list \<Rightarrow>
   (string \<times> py_val) list option" where
  "affecter lec dd cle indicateurs =
    (case py_float lec (dict_get dd cle (PyNum 0)) of
       None \<Rightarrow> None
     | Some x \<Rightarrow> Some (setitem indicateurs cle (PyNum x)))"

text \<open>
  The block that reads the rows of an uploaded table which has the two columns
  (lines 333--356), started on the empty dictionary of line 243. The result is the
  dictionary \<^verbatim>\<open>indicateurs\<close> when the block is left: the handler of line 368 shows
  an exception of \<^verbatim>\<open>int\<close> or \<^verbatim>\<open>float\<close> as an error message, and the entries stored
  before the exception stay. Only the ten names below are looked up.
\<close>

definition importation :: "builtins \<Rightarrow> (string \<times> py_val) list \<Rightarrow> (string \<times> py_val) list" where
  "importation lec rows =
    (let dd = data_dict rows;
         nom_entreprise = dict_get dd ''nom_entreprise'' (PyStr ''Entreprise inconnue'')
     in case py_int lec (dict_get dd ''annee'' (PyNum 2022)) of
          None \<Rightarrow> []
        | Some annee \<Rightarrow>
     (case affecter lec dd ''taux_feminisation'' [] of
          None \<Rightarrow> []
        | Some i1 \<Rightarrow>
     (case affecter lec dd ''taux_femmes_cadres'' i1 of
          None \<Rightarrow> i1
        | Some i2 \<Rightarrow>
     (case affecter lec dd ''ecart_salaire'' i2 of
          None \<Rightarrow> i2
        | Some i3 \<Rightarrow>
     (case affecter lec dd ''taux_handicap'' i3 of
          None \<Rightarrow> i3
        | Some i4 \<Rightarrow>
     (case py_float lec (dict_get dd ''moins_30_ans'' (PyNum 0)) of
          None \<Rightarrow> i4
        | Some moins_30 \<Rightarrow>
     (case py_float lec (dict_get dd ''entre_30_50_ans'' (PyNum 0)) of
          None \<Rightarrow> i4
        | Some entre_30_50 \<Rightarrow>
     (case py_float lec (dict_get dd ''plus_50_ans'' (PyNum 0)) of
          None \<Rightarrow> i4
        | Some plus_50 \<Rightarrow>
     (let i5 = setitem i4 ''equilibre_age''
                 (PyNum (calculer_equilibre_age moins_30 entre_30_50 plus_50))
      in case affecter lec dd ''taux_absenteisme'' i5 of
           None \<Rightarrow> i5
         | Some i6 \<Rightarrow> i6)))))))))"

subsection \<open>The grades of the specification\<close>

text \<open>
  The specification's enumeration of grades and its table A=5, B=4, C=3, D=2, E=1,
  written from the specification's words, to be compared with the code. \<open>lettre\<close>
  is the string the program uses for a grade.
\<close>

datatype grade = Grade_A | Grade_B | Grade_C | Grade_D | Grade_E

fun spec_grade_value :: "grade \<Rightarrow> int" where
  "spec_grade_value Grade_A = 5"
| "spec_grade_value Grade_B = 4"
| "spec_grade_value Grade_C = 3"
| "spec_grade_value Grade_D = 2"
| "spec_grade_value Grade_E = 1"

fun lettre :: "grade \<Rightarrow> string" where
  "lettre Grade_A = ''A''"
| "lettre Grade_B = ''B''"
| "lettre Grade_C = ''C''"
| "lettre Grade_D = ''D''"
| "lettre Grade_E = ''E''"

section \<open>Properties\<close>

subsection \<open>Helper facts\<close>

lemma item4:
  "item [t0, t1, t2, t3] 0 = Inr t0"
  "item [t0, t1, t2, t3] (Suc 0) = Inr t1"
  "item [t0, t1, t2, t3] 2 = Inr t2"
  "item [t0, t1, t2, t3] 3 = Inr t3"
  by (simp_all add: item_def numeral_2_eq_2 numeral_3_eq_3)

lemma and_then_Inr: "and_then (Inr x) f = f x"
  by (simp add: and_then_def)

lemma and_then_Inl: "and_then (Inl e) f = Inl e"
  by (simp add: and_then_def)

lemma attribuer_note_croissant:
  "attribuer_note v [t0, t1, t2, t3] True =
    Inr (if v \<ge> t0 then ''A'' else if v \<ge> t1 then ''B''
         else if v \<ge> t2 then ''C'' else if v \<ge> t3 then ''D'' else ''E'')"
  by (simp add: attribuer_note_def item4 and_then_Inr)

lemma attribuer_note_decroissant:
  "attribuer_note v [t0, t1, t2, t3] False =
    Inr (if v \<le> t0 then ''A'' else if v \<le> t1 then ''B''
         else if v \<le> t2 then ''C'' else if v \<le> t3 then ''D'' else ''E'')"
  by (simp add: attribuer_note_def item4 and_then_Inr)

lemma note_vers_chiffre_lettre: "note_vers_chiffre (lettre g) = spec_grade_value g"
  by (cases g) (simp_all add: note_vers_chiffre_def conversion_def)

lemma length_notes_numeriques: "length (notes_numeriques r) = length r"
  by (simp add: notes_numeriques_def)

lemma snd_notes_numeriques: "map snd (notes_numeriques r) = map (note_vers_chiffre \<circ> snd) r"
  by (simp add: notes_numeriques_def case_prod_unfold comp_def)

lemma snd_notes_numeriques_zip:
  "length cles = length notes \<Longrightarrow>
   map snd (notes_numeriques (zip cles notes)) = map note_vers_chiffre notes"
  by (simp add: snd_notes_numeriques flip: map_map)

lemma score_global_zip:
  assumes "notes \<noteq> []" and "length cles = length notes"
  shows "score_global (notes_numeriques (zip cles notes)) =
         Inr (real_of_int (sum_list (map note_vers_chiffre notes)) / real (length notes))"
  using assms by (simp add: score_global_def length_notes_numeriques snd_notes_numeriques_zip)

lemma length_cles_resultats: "length cles_resultats = 6"
  by (simp add: cles_resultats_def)

lemma map_of_setitem: "k' \<noteq> k \<Longrightarrow> map_of (setitem d k v) k' = map_of d k'"
  by (induction d k v rule: setitem.induct) auto

lemma equilibre_defaut: "calculer_equilibre_age 15 45 40 = 1633400 / 20001"
  by (simp add: calculer_equilibre_age_def Let_def)

lemma map_of_setitem_same: "map_of (setitem d k v) k = Some v"
  by (induction d k v rule: setitem.induct) auto

lemma map_of_foldl_setitem:
  "map_of (foldl (\<lambda>d (k, v). setitem d k v) d rows) k' =
     (case map_of (rev rows) k' of None \<Rightarrow> map_of d k' | Some v \<Rightarrow> Some v)"
proof (induction rows arbitrary: d)
  case Nil
  then show ?case by simp
next
  case (Cons r rows)
  obtain k v where r: "r = (k, v)" by (cases r)
  show ?case
    by (simp add: r Cons map_of_setitem map_of_setitem_same map_add_def
        split: option.splits)
qed

lemma map_of_data_dict: "map_of (data_dict rows) k' = map_of (rev rows) k'"
  by (simp add: data_dict_def map_of_foldl_setitem split: option.splits)

lemma dict_get_data_dict_drop:
  "k' \<noteq> k \<Longrightarrow>
   dict_get (data_dict (r1 @ (k, v) # r2)) k' defaut = dict_get (data_dict (r1 @ r2)) k' defaut"
  by (simp add: dict_get_def map_of_data_dict map_add_def split: option.splits)

lemma affecter_cong:
  "dict_get dd cle (PyNum 0) = dict_get dd' cle (PyNum 0) \<Longrightarrow>
   affecter lec dd cle i = affecter lec dd' cle i"
  by (simp add: affecter_def)

lemma importation_drop:
  assumes "k \<notin> set (map fst template_data)"
  shows "importation lec (r1 @ (k, v) # r2) = importation lec (r1 @ r2)"
proof -
  let ?a = "data_dict (r1 @ (k, v) # r2)" and ?b = "data_dict (r1 @ r2)"
  from assms have ne: "''annee'' \<noteq> k" "''taux_feminisation'' \<noteq> k"
    "''taux_femmes_cadres'' \<noteq> k" "''ecart_salaire'' \<noteq> k" "''taux_handicap'' \<noteq> k"
    "''moins_30_ans'' \<noteq> k" "''entre_30_50_ans'' \<noteq> k" "''plus_50_ans'' \<noteq> k"
    "''taux_absenteisme'' \<noteq> k"
    by (auto simp add: template_data_def)
  have g: "dict_get ?a ''annee'' (PyNum 2022) = dict_get ?b ''annee'' (PyNum 2022)"
    "dict_get ?a ''moins_30_ans'' (PyNum 0) = dict_get ?b ''moins_30_ans'' (PyNum 0)"
    "dict_get ?a ''entre_30_50_ans'' (PyNum 0) = dict_get ?b ''entre_30_50_ans'' (PyNum 0)"
    "dict_get ?a ''plus_50_ans'' (PyNum 0) = dict_get ?b ''plus_50_ans'' (PyNum 0)"
    using ne by (simp_all add: dict_get_data_dict_drop)
  have a: "\<And>i. affecter lec ?a ''taux_feminisation'' i = affecter lec ?b ''taux_feminisation'' i"
    "\<And>i. affecter lec ?a ''taux_femmes_cadres'' i = affecter lec ?b ''taux_femmes_cadres'' i"
    "\<And>i. affecter lec ?a ''ecart_salaire'' i = affecter lec ?b ''ecart_salaire'' i"
    "\<And>i. affecter lec ?a ''taux_handicap'' i = affecter lec ?b ''taux_handicap'' i"
    "\<And>i. affecter lec ?a ''taux_absenteisme'' i = affecter lec ?b ''taux_absenteisme'' i"
    using ne by (simp_all add: affecter_def dict_get_data_dict_drop)
  show ?thesis
    unfolding importation_def Let_def g a ..
qed

lemma keys_setitem: "fst ` set (setitem d k v) = insert k (fst ` set d)"
  by (induction d k v rule: setitem.induct) auto

lemma affecter_keys:
  "affecter lec dd cle i = Some i' \<Longrightarrow> fst ` set i' = insert cle (fst ` set i)"
  by (clarsimp simp add: affecter_def keys_setitem split: option.splits)

lemma importation_keys: "fst ` set (importation lec rows) \<subseteq> set indicateurs_requis"
proof -
  define K where "K d \<longleftrightarrow> fst ` set d \<subseteq> set indicateurs_requis"
    for d :: "(string \<times> py_val) list"
  have c: "\<And>m a f. (m = None \<Longrightarrow> K a) \<Longrightarrow> (\<And>x. m = Some x \<Longrightarrow> K (f x)) \<Longrightarrow>
      K (case m of None \<Rightarrow> a | Some x \<Rightarrow> f x)"
    by (case_tac m) auto
  have e: "K []" by (simp add: K_def)
  have a: "\<And>dd cle i i'. affecter lec dd cle i = Some i' \<Longrightarrow> K i \<Longrightarrow>
      cle \<in> set indicateurs_requis \<Longrightarrow> K i'"
    by (drule affecter_keys) (simp add: K_def)
  have s: "\<And>i v. K i \<Longrightarrow> K (setitem i ''equilibre_age'' v)"
    by (simp add: K_def keys_setitem indicateurs_requis_def)
  have m: "''taux_feminisation'' \<in> set indicateurs_requis"
    "''taux_femmes_cadres'' \<in> set indicateurs_requis"
    "''ecart_salaire'' \<in> set indicateurs_requis"
    "''taux_handicap'' \<in> set indicateurs_requis"
    "''taux_absenteisme'' \<in> set indicateurs_requis"
    by (simp_all add: indicateurs_requis_def)
  have "K (importation lec rows)"
    unfolding importation_def Let_def
    by (intro c) (blast intro: e a s m)+
  then show ?thesis by (simp add: K_def)
qed







lemma calcul_des_notes_defaut:
  "calcul_des_notes indicateurs_par_defaut =
     Inr (zip cles_resultats [''C'', ''C'', ''B'', ''C'', ''B'', ''C''])"
  by (simp add: indicateurs_par_defaut_def calcul_des_notes_def noter_def getitem_def
      seuils_def and_then_def attribuer_note_croissant attribuer_note_decroissant
      equilibre_defaut)

lemma resultat_defaut:
  "and_then (calcul_des_notes indicateurs_par_defaut) (\<lambda>resultats.
         and_then (score_global (notes_numeriques resultats)) (\<lambda>score.
           Inr (resultats, score, chiffre_vers_note score)))
   = Inr (zip cles_resultats [''C'', ''C'', ''B'', ''C'', ''B'', ''C''], 10 / 3, ''C'')"
proof -
  have s: "score_global (notes_numeriques (zip cles_resultats [''C'', ''C'', ''B'', ''C'', ''B'', ''C'']))
      = Inr (10 / 3)"
    by (simp add: score_global_zip length_cles_resultats note_vers_chiffre_def conversion_def)
  have g: "chiffre_vers_note (10 / 3) = ''C''"
    by (simp add: chiffre_vers_note_def)
  show ?thesis by (simp add: calcul_des_notes_defaut s g and_then_Inr)
qed

lemma generation_defaut:
  "generation_du_rapport indicateurs_par_defaut =
     Some (Inr (zip cles_resultats [''C'', ''C'', ''B'', ''C'', ''B'', ''C''], 10 / 3, ''C''))"
proof -
  have v: "verification indicateurs_par_defaut indicateurs_requis = Inr ()"
    by (simp add: indicateurs_par_defaut_def indicateurs_requis_def)
  have n: "indicateurs_par_defaut \<noteq> []" by (simp add: indicateurs_par_defaut_def)
  show ?thesis
    by (simp add: generation_du_rapport_def n v and_then_Inr resultat_defaut)
qed

lemma evaluation_defaut:
  "evaluation True indicateurs_par_defaut =
     Some (Inr (zip cles_resultats [''C'', ''C'', ''B'', ''C'', ''B'', ''C''], 10 / 3, ''C''))"
proof -
  have n: "indicateurs_par_defaut \<noteq> []" by (simp add: indicateurs_par_defaut_def)
  show ?thesis by (simp add: evaluation_def n resultat_defaut)
qed

lemma importation_template: "importation lec template_data = indicateurs_par_defaut"
  by (simp add: importation_def data_dict_def template_data_def dict_get_def affecter_def
      indicateurs_par_defaut_def)

lemma inconnu: "''taux_inconnu'' \<notin> set (map fst template_data)"
  by (simp add: template_data_def)

lemma importation_inconnu:
  "importation lec (template_data @ [(''taux_inconnu'', PyNum 50)]) = indicateurs_par_defaut"
  using importation_drop [OF inconnu, of lec template_data "PyNum 50" "[]"]
  by (simp add: importation_template)

subsection \<open>The grade ladder\<close>

text \<open>
  Claim C1. For every value \<open>v\<close> and every list of four thresholds \<open>[t0, t1, t2, t3]\<close>,
  \<^verbatim>\<open>attribuer_note\<close> raises nothing and returns, when a higher value is better, A if
  \<open>v \<ge> t0\<close>, else B if \<open>v \<ge> t1\<close>, else C if \<open>v \<ge> t2\<close>, else D if \<open>v \<ge> t3\<close>, else E;
  when a lower value is better, the same chain with \<open>\<le>\<close>. The comparisons are
  inclusive: a value equal to the first threshold gets A in both directions, and a
  value equal to a later threshold, having missed the thresholds before it, gets
  that threshold's grade and not the next one down.
\<close>

theorem attribuer_note_ladder:
  "attribuer_note v [t0, t1, t2, t3] True =
     Inr (if v \<ge> t0 then ''A'' else if v \<ge> t1 then ''B''
          else if v \<ge> t2 then ''C'' else if v \<ge> t3 then ''D'' else ''E'')
   \<and> attribuer_note v [t0, t1, t2, t3] False =
     Inr (if v \<le> t0 then ''A'' else if v \<le> t1 then ''B''
          else if v \<le> t2 then ''C'' else if v \<le> t3 then ''D'' else ''E'')
   \<and> attribuer_note t0 [t0, t1, t2, t3] True = Inr ''A''
   \<and> attribuer_note t0 [t0, t1, t2, t3] False = Inr ''A''
   \<and> attribuer_note t1 [t0, t1, t2, t3] True = Inr (if t1 \<ge> t0 then ''A'' else ''B'')
   \<and> attribuer_note t1 [t0, t1, t2, t3] False = Inr (if t1 \<le> t0 then ''A'' else ''B'')
   \<and> attribuer_note t3 [t0, t1, t2, t3] True \<noteq> Inr ''E''
   \<and> attribuer_note t3 [t0, t1, t2, t3] False \<noteq> Inr ''E''"
  by (simp add: attribuer_note_croissant attribuer_note_decroissant)

text \<open>
  Claim C8. With thresholds \<open>t0 > t1 > t2 > t3\<close> and a higher value being better, the
  grade never gets worse as the value grows: for \<open>v1 \<le> v2\<close> both calls return a grade
  and the grade of \<open>v2\<close> is at least as good as the grade of \<open>v1\<close>. The order
  A > B > C > D > E on grades is read through \<^verbatim>\<open>note_vers_chiffre\<close>, which maps the
  grades to 5 > 4 > 3 > 2 > 1.
\<close>

theorem attribuer_note_monotone:
  assumes "t3 < t2" "t2 < t1" "t1 < t0" and "v1 \<le> v2"
  shows "\<exists>n1 n2. attribuer_note v1 [t0, t1, t2, t3] True = Inr n1
               \<and> attribuer_note v2 [t0, t1, t2, t3] True = Inr n2
               \<and> note_vers_chiffre n1 \<le> note_vers_chiffre n2"
  using assms by (auto simp add: attribuer_note_croissant note_vers_chiffre_def conversion_def)

text \<open>The theorem at the thresholds of \<^verbatim>\<open>taux_feminisation\<close>, from 24.9 (E) to 40 (A).\<close>

theorem attribuer_note_monotone_witness:
  "(25::real) < 30 \<and> (30::real) < 35 \<and> (35::real) < 40 \<and> (24.9::real) \<le> 40
   \<and> attribuer_note 24.9 [40, 35, 30, 25] True = Inr ''E''
   \<and> attribuer_note 40 [40, 35, 30, 25] True = Inr ''A''
   \<and> note_vers_chiffre ''E'' \<le> note_vers_chiffre ''A''"
  using attribuer_note_monotone [of 25 30 35 40 "24.9" 40]
  by (simp add: attribuer_note_croissant)

subsection \<open>The aggregate score\<close>

text \<open>
  Claim C2. For every non-empty collection of grades drawn from A, B, C, D, E (a
  dictionary with distinct keys \<open>cles\<close> and one grade per key), the score computed by
  the program is the arithmetic mean of the table A=5, B=4, C=3, D=2, E=1 over the
  collection, every grade with the same weight. In particular, on the six keys of
  the program, the grades A, B, C, D, E, C give 3, six A give 5 and six E give 1.
\<close>

theorem score_global_mean:
  "(gs \<noteq> [] \<and> distinct cles \<and> length cles = length gs \<longrightarrow>
     score_global (notes_numeriques (zip cles (map lettre gs))) =
       Inr (real_of_int (sum_list (map spec_grade_value gs)) / real (length gs)))
   \<and> score_global (notes_numeriques (zip cles_resultats
        (map lettre [Grade_A, Grade_B, Grade_C, Grade_D, Grade_E, Grade_C]))) = Inr 3
   \<and> score_global (notes_numeriques (zip cles_resultats
        (map lettre [Grade_A, Grade_A, Grade_A, Grade_A, Grade_A, Grade_A]))) = Inr 5
   \<and> score_global (notes_numeriques (zip cles_resultats
        (map lettre [Grade_E, Grade_E, Grade_E, Grade_E, Grade_E, Grade_E]))) = Inr 1"
proof -
  have gen: "\<And>gs cles. gs \<noteq> [] \<Longrightarrow> length cles = length gs \<Longrightarrow>
     score_global (notes_numeriques (zip cles (map lettre gs))) =
       Inr (real_of_int (sum_list (map spec_grade_value gs)) / real (length gs))"
    by (simp add: score_global_zip comp_def note_vers_chiffre_lettre)
  have ex: "score_global (notes_numeriques (zip cles_resultats
        (map lettre [Grade_A, Grade_B, Grade_C, Grade_D, Grade_E, Grade_C]))) = Inr 3"
      "score_global (notes_numeriques (zip cles_resultats
        (map lettre [Grade_A, Grade_A, Grade_A, Grade_A, Grade_A, Grade_A]))) = Inr 5"
      "score_global (notes_numeriques (zip cles_resultats
        (map lettre [Grade_E, Grade_E, Grade_E, Grade_E, Grade_E, Grade_E]))) = Inr 1"
    by (simp_all add: score_global_zip length_cles_resultats note_vers_chiffre_def
        conversion_def)
  from gen ex show ?thesis by blast
qed

text \<open>The theorem at two grades, A and B, whose mean is 4.5.\<close>

theorem score_global_mean_witness:
  "[Grade_A, Grade_B] \<noteq> [] \<and> distinct [''x'', ''y'']
   \<and> length [''x'', ''y''] = length [Grade_A, Grade_B]
   \<and> score_global (notes_numeriques (zip [''x'', ''y''] (map lettre [Grade_A, Grade_B])))
       = Inr 4.5"
  using score_global_mean [of "[Grade_A, Grade_B]" "[''x'', ''y'']"] by simp

text \<open>
  Claim C7. Whatever grade among A, B, C, D, E each of the six indicators of the
  program receives, the score is computed (nothing is raised) and lies between 1
  and 5, both included.
\<close>

theorem score_global_bounds:
  "\<exists>s. score_global (notes_numeriques (zip cles_resultats
          [lettre g1, lettre g2, lettre g3, lettre g4, lettre g5, lettre g6])) = Inr s
       \<and> 1 \<le> s \<and> s \<le> 5"
proof -
  have b: "\<And>g. 1 \<le> note_vers_chiffre (lettre g) \<and> note_vers_chiffre (lettre g) \<le> 5"
    by (case_tac g) (simp_all add: note_vers_chiffre_def conversion_def)
  define n where "n = note_vers_chiffre (lettre g1) + note_vers_chiffre (lettre g2)
     + note_vers_chiffre (lettre g3) + note_vers_chiffre (lettre g4)
     + note_vers_chiffre (lettre g5) + note_vers_chiffre (lettre g6)"
  have "6 \<le> n" "n \<le> 30"
    unfolding n_def
    using b [of g1] b [of g2] b [of g3] b [of g4] b [of g5] b [of g6] by linarith+
  then have "6 \<le> real_of_int n" "real_of_int n \<le> 30"
    by linarith+
  then have bounds: "1 \<le> real_of_int n / 6 \<and> real_of_int n / 6 \<le> 5" by simp
  have eq: "score_global (notes_numeriques (zip cles_resultats
          [lettre g1, lettre g2, lettre g3, lettre g4, lettre g5, lettre g6])) =
      Inr (real_of_int n / 6)"
    by (simp add: score_global_zip length_cles_resultats n_def)
  from bounds show ?thesis unfolding eq by blast
qed

text \<open>
  Claim C3. For every score \<open>s\<close>, \<^verbatim>\<open>chiffre_vers_note\<close> returns A if \<open>s \<ge> 4.5\<close>, else
  B if \<open>s \<ge> 3.5\<close>, else C if \<open>s \<ge> 2.5\<close>, else D if \<open>s \<ge> 1.5\<close>, else E. It is the
  ladder of \<^verbatim>\<open>attribuer_note\<close> at the fixed thresholds 4.5, 3.5, 2.5, 1.5, and no
  indicator of the table \<^verbatim>\<open>seuils\<close> has these thresholds.
\<close>

theorem chiffre_vers_note_ladder:
  "chiffre_vers_note s =
     (if s \<ge> 4.5 then ''A'' else if s \<ge> 3.5 then ''B''
      else if s \<ge> 2.5 then ''C'' else if s \<ge> 1.5 then ''D'' else ''E'')
   \<and> attribuer_note s [4.5, 3.5, 2.5, 1.5] True = Inr (chiffre_vers_note s)
   \<and> [4.5, 3.5, 2.5, 1.5] \<notin> set (map snd seuils)"
  by (simp add: chiffre_vers_note_def attribuer_note_croissant seuils_def)

text \<open>
  Claim C10. For every string that is not one of the letters A, B, C, D, E,
  \<^verbatim>\<open>note_vers_chiffre\<close> returns 0 and raises nothing. A malformed grade in an
  aggregate is therefore not rejected (every non-empty dictionary of grades, well
  formed or not, gets a score) and can pull the mean below 1: with five E and one
  malformed grade the score is 5/6.
\<close>

theorem note_vers_chiffre_malformed:
  "(note \<notin> {''A'', ''B'', ''C'', ''D'', ''E''} \<longrightarrow> note_vers_chiffre note = 0)
   \<and> (note \<notin> {''A'', ''B'', ''C'', ''D'', ''E''} \<longrightarrow>
        score_global (notes_numeriques (zip cles_resultats [''E'', ''E'', ''E'', ''E'', ''E'', note]))
          = Inr (5 / 6))
   \<and> (resultats \<noteq> [] \<longrightarrow> (\<exists>s. score_global (notes_numeriques resultats) = Inr s))"
proof (intro conjI impI)
  assume n: "note \<notin> {''A'', ''B'', ''C'', ''D'', ''E''}"
  then show z: "note_vers_chiffre note = 0"
    by (simp add: note_vers_chiffre_def conversion_def)
  have e: "note_vers_chiffre ''E'' = 1" by (simp add: note_vers_chiffre_def conversion_def)
  show "score_global (notes_numeriques (zip cles_resultats [''E'', ''E'', ''E'', ''E'', ''E'', note]))
          = Inr (5 / 6)"
    by (simp add: score_global_zip length_cles_resultats z e)
next
  assume "resultats \<noteq> []"
  then show "\<exists>s. score_global (notes_numeriques resultats) = Inr s"
    by (simp add: score_global_def length_notes_numeriques)
qed

text \<open>The theorem at the malformed grade F: the score 5/6 is below 1.\<close>

theorem note_vers_chiffre_malformed_witness:
  "''F'' \<notin> {''A'', ''B'', ''C'', ''D'', ''E''} \<and> note_vers_chiffre ''F'' = 0
   \<and> score_global (notes_numeriques (zip cles_resultats [''E'', ''E'', ''E'', ''E'', ''E'', ''F'']))
        = Inr (5 / 6)
   \<and> (5 / 6 :: real) < 1
   \<and> [(''x'', ''F'')] \<noteq> []
   \<and> (\<exists>s. score_global (notes_numeriques [(''x'', ''F'')]) = Inr s)"
  using note_vers_chiffre_malformed [of "''F''" "[(''x'', ''F'')]"] by simp

subsection \<open>The age balance\<close>

text \<open>
  Claim C4. For every triple of percentages, \<^verbatim>\<open>calculer_equilibre_age\<close> returns
  (1 - mean(|under30 - 33.33|, |between30and50 - 33.33|, |over50 - 33.33|) / 66.67)
  * 100, with the constants 33.33 and 66.67; at (100, 0, 0) the result is within
  0.01 of 33.33.
\<close>

theorem calculer_equilibre_age_formula:
  "calculer_equilibre_age a b c =
     (1 - ((\<bar>a - 33.33\<bar> + \<bar>b - 33.33\<bar> + \<bar>c - 33.33\<bar>) / 3) / 66.67) * 100
   \<and> \<bar>calculer_equilibre_age 100 0 0 - 33.33\<bar> < 0.01"
  by (simp add: calculer_equilibre_age_def Let_def)

text \<open>
  Claim C9. The result is not clamped to the interval from 0 to 100: whenever the
  mean deviation from 33.33 exceeds 66.67 the balance is strictly negative, and
  there is such a triple.
\<close>

theorem calculer_equilibre_age_negative:
  "(66.67 < (\<bar>a - 33.33\<bar> + \<bar>b - 33.33\<bar> + \<bar>c - 33.33\<bar>) / 3 \<longrightarrow>
      calculer_equilibre_age a b c < 0)
   \<and> (\<exists>x y z. calculer_equilibre_age x y z < 0)"
proof
  show "66.67 < (\<bar>a - 33.33\<bar> + \<bar>b - 33.33\<bar> + \<bar>c - 33.33\<bar>) / 3 \<longrightarrow>
      calculer_equilibre_age a b c < 0"
    by (simp add: calculer_equilibre_age_def Let_def mult_less_0_iff)
  have "calculer_equilibre_age 300 0 0 < 0"
    by (simp add: calculer_equilibre_age_def Let_def)
  then show "\<exists>x y z. calculer_equilibre_age x y z < 0" by blast
qed

text \<open>The theorem at (300, 0, 0), whose mean deviation is 111.11.\<close>

theorem calculer_equilibre_age_negative_witness:
  "66.67 < (\<bar>300 - 33.33\<bar> + \<bar>0 - 33.33\<bar> + \<bar>0 - 33.33 :: real\<bar>) / 3
   \<and> calculer_equilibre_age 300 0 0 < 0"
  using calculer_equilibre_age_negative [of 300 0 0] by simp

subsection \<open>No input at all\<close>




subsection \<open>Unknown indicators\<close>

text \<open>
  Claim C6, as stated: an indicator value whose key is not one of the six fixed keys
  raises an UnknownIndicatorError and the whole evaluation fails. It does not. A
  key of the user's own reaches the program only as a row of an uploaded file. With
  the rows of the model file and one more row, \<^verbatim>\<open>taux_inconnu\<close> = 50, the evaluation
  and the report section raise nothing and compute the six grades, the score 10/3
  and the global grade C, whatever the built-ins read from strings (no string is
  converted here).
\<close>

theorem unknown_row_not_rejected:
  "\<forall>lec. evaluation True (importation lec (template_data @ [(''taux_inconnu'', PyNum 50)])) =
       Some (Inr (zip cles_resultats [''C'', ''C'', ''B'', ''C'', ''B'', ''C''], 10 / 3, ''C''))
     \<and> generation_du_rapport (importation lec (template_data @ [(''taux_inconnu'', PyNum 50)])) =
       Some (Inr (zip cles_resultats [''C'', ''C'', ''B'', ''C'', ''B'', ''C''], 10 / 3, ''C''))"
  by (simp add: importation_inconnu evaluation_defaut generation_defaut)

text \<open>
  Claim C6, amended. A row of the uploaded file whose name is not one of the ten
  names the program looks up (the names of the model file, which give the six
  indicators) is neither rejected nor graded: it raises no error, the dictionary
  \<^verbatim>\<open>indicateurs\<close> read from the file is the same as without the row, and so are the
  results of the evaluation and of the report section. The dictionary read from a
  file never holds a key outside the six fixed keys.
\<close>

theorem unknown_row_dropped:
  "(k \<notin> set (map fst template_data) \<longrightarrow>
      importation lec (r1 @ (k, v) # r2) = importation lec (r1 @ r2)
      \<and> evaluation bouton (importation lec (r1 @ (k, v) # r2))
          = evaluation bouton (importation lec (r1 @ r2))
      \<and> generation_du_rapport (importation lec (r1 @ (k, v) # r2))
          = generation_du_rapport (importation lec (r1 @ r2)))
   \<and> fst ` set (importation lec rows) \<subseteq> set indicateurs_requis"
  by (simp add: importation_drop importation_keys)

text \<open>
  The theorem at the rows of the model file with the row \<^verbatim>\<open>taux_inconnu\<close> = 50
  added: the dictionary read is the one of the form's default values.
\<close>

theorem unknown_row_dropped_witness:
  "\<forall>lec. ''taux_inconnu'' \<notin> set (map fst template_data)
     \<and> importation lec (template_data @ [(''taux_inconnu'', PyNum 50)])
         = importation lec template_data
     \<and> importation lec template_data = indicateurs_par_defaut
     \<and> generation_du_rapport (importation lec (template_data @ [(''taux_inconnu'', PyNum 50)]))
         = generation_du_rapport indicateurs_par_defaut"
proof
  fix lec
  show "''taux_inconnu'' \<notin> set (map fst template_data)
     \<and> importation lec (template_data @ [(''taux_inconnu'', PyNum 50)])
         = importation lec template_data
     \<and> importation lec template_data = indicateurs_par_defaut
     \<and> generation_du_rapport (importation lec (template_data @ [(''taux_inconnu'', PyNum 50)]))
         = generation_du_rapport indicateurs_par_defaut"
    using inconnu unknown_row_dropped [of "''taux_inconnu''" lec template_data "PyNum 50" "[]" True "[]"]
    by (simp add: importation_template)
qed

end
